theory Spec2Isabelle
  imports Main "HOL-Library.Char_ord" "HOL-Library.List_Lexorder" "HOL-Library.Sublist"
    "HOL-Library.Word"
begin

section \<open>Text, characters and Python's string helpers\<close>

text \<open>
  The program is \<^verbatim>\<open>collect_info.py\<close>. Python strings are modelled as \<^typ>\<open>string\<close>:
  every character is a code point below 256. On that range Python's \<^verbatim>\<open>\d\<close> is the ten
  ASCII digits, and \<^verbatim>\<open>\s\<close> and \<^verbatim>\<open>str.strip\<close> share the twelve blank code points listed
  in \<open>is_space\<close>. Integers are unbounded, as Python's are (the interpreter's cap on the
  number of digits \<^verbatim>\<open>int()\<close> accepts is not modelled).
\<close>

definition is_digit :: "char \<Rightarrow> bool" where
  "is_digit c = (48 \<le> (of_char c :: nat) \<and> (of_char c :: nat) \<le> 57)"

definition is_space :: "char \<Rightarrow> bool" where
  "is_space c = ((of_char c :: nat) \<in> set [9, 10, 11, 12, 13, 28, 29, 30, 31, 32, 133, 160])"

definition newline :: char where
  "newline = CHR 0x0A"

text \<open>\<^verbatim>\<open>str.strip()\<close>: blanks are dropped at both ends.\<close>

definition strip :: "string \<Rightarrow> string" where
  "strip s = rev (dropWhile is_space (rev (dropWhile is_space s)))"

text \<open>\<^verbatim>\<open>int(part)\<close> on a run of ASCII digits, and \<^verbatim>\<open>str(n)\<close> for a natural number.\<close>

definition digit_val :: "char \<Rightarrow> nat" where
  "digit_val c = (of_char c :: nat) - 48"

definition int_of_digits :: "string \<Rightarrow> nat" where
  "int_of_digits s = foldl (\<lambda>acc c. 10 * acc + digit_val c) 0 s"

definition digit_char :: "nat \<Rightarrow> char" where
  "digit_char d = char_of (48 + d)"

fun str_nat :: "nat \<Rightarrow> string" where
  "str_nat n = (if n < 10 then [digit_char n] else str_nat (n div 10) @ [digit_char (n mod 10)])"

declare str_nat.simps [simp del]

text \<open>The format \<^verbatim>\<open>{n:02d}\<close> for \<open>n \<ge> 0\<close>: zero-padded on the left to width two.\<close>

definition fmt02 :: "nat \<Rightarrow> string" where
  "fmt02 n = replicate (2 - length (str_nat n)) (CHR ''0'') @ str_nat n"

text \<open>\<^verbatim>\<open>s.split(".")\<close>: the pieces between the dots, always at least one piece.\<close>

fun split_on :: "char \<Rightarrow> string \<Rightarrow> string list" where
  "split_on d [] = [[]]"
| "split_on d (c # cs) =
     (if c = d then [] # split_on d cs
      else (case split_on d cs of p # ps \<Rightarrow> (c # p) # ps | [] \<Rightarrow> [[c]]))"

section \<open>Regular expressions as Python's \<^verbatim>\<open>re\<close> runs them\<close>

text \<open>
  The source's six patterns are written in the small abstract syntax below. A matcher
  state is the character just before the current position (for \<^verbatim>\<open>^\<close>), the text still
  to be read, and the groups captured so far. \<open>ms r st\<close> lists every way \<open>r\<close> can match at
  \<open>st\<close>, in the order Python's backtracking engine tries them: a greedy loop offers the
  longest run first, a lazy loop the shortest; \<^verbatim>\<open>re.match\<close> and \<^verbatim>\<open>re.search\<close> take the head
  of that list. An unbounded loop runs at most once per remaining character, which is
  exact for the loop bodies used here, since each of them reads at least one character.
\<close>

datatype cclass =
    CChar char           \<comment> \<open>a literal character\<close>
  | CDigit               \<comment> \<open>\<^verbatim>\<open>\d\<close>\<close>
  | CSpace               \<comment> \<open>\<^verbatim>\<open>\s\<close>\<close>
  | CDot                 \<comment> \<open>\<^verbatim>\<open>.\<close> without DOTALL: anything but a newline\<close>
  | CAny                 \<comment> \<open>\<^verbatim>\<open>.\<close> with DOTALL\<close>
  | CNot "char list"     \<comment> \<open>a negated set such as \<^verbatim>\<open>[^/>]\<close>\<close>

fun cmatch :: "cclass \<Rightarrow> char \<Rightarrow> bool" where
  "cmatch (CChar a) c = (c = a)"
| "cmatch CDigit c = is_digit c"
| "cmatch CSpace c = is_space c"
| "cmatch CDot c = (c \<noteq> newline)"
| "cmatch CAny c = True"
| "cmatch (CNot xs) c = (c \<notin> set xs)"

datatype regex =
    Eps
  | Atom cclass
  | Seq regex regex
  | Rep bool nat "nat option" regex   \<comment> \<open>greedy?, least count, greatest count, body\<close>
  | Group nat regex                    \<comment> \<open>a capturing group and its number\<close>
  | Bol                                \<comment> \<open>\<^verbatim>\<open>^\<close> under MULTILINE\<close>
  | Eol                                \<comment> \<open>\<^verbatim>\<open>$\<close> under MULTILINE\<close>

type_synonym mstate = "char option \<times> string \<times> (nat \<times> string) list"

definition rest_of :: "mstate \<Rightarrow> string" where
  "rest_of st = fst (snd st)"

definition groups_of :: "mstate \<Rightarrow> (nat \<times> string) list" where
  "groups_of st = snd (snd st)"

text \<open>\<^verbatim>\<open>match.group(i)\<close> of a group that took part in the match.\<close>

definition match_group :: "nat \<Rightarrow> mstate \<Rightarrow> string" where
  "match_group i st = (case map_of (groups_of st) i of Some s \<Rightarrow> s | None \<Rightarrow> [])"

fun rep :: "bool \<Rightarrow> (mstate \<Rightarrow> mstate list) \<Rightarrow> nat \<Rightarrow> nat \<Rightarrow> mstate \<Rightarrow> mstate list" where
  "rep g f lo 0 st = (if lo = 0 then [st] else [])"
| "rep g f lo (Suc n) st =
     (if g then concat (map (rep g f (lo - 1) n) (f st)) @ (if lo = 0 then [st] else [])
      else (if lo = 0 then [st] else []) @ concat (map (rep g f (lo - 1) n) (f st)))"

definition set_group :: "nat \<Rightarrow> mstate \<Rightarrow> mstate \<Rightarrow> mstate" where
  "set_group i st st' =
     (fst st', rest_of st',
      (i, take (length (rest_of st) - length (rest_of st')) (rest_of st)) # groups_of st')"

primrec ms :: "regex \<Rightarrow> mstate \<Rightarrow> mstate list" where
  "ms Eps = (\<lambda>st. [st])"
| "ms (Atom k) = (\<lambda>st.
     (case rest_of st of
        [] \<Rightarrow> []
      | c # cs \<Rightarrow> if cmatch k c then [(Some c, cs, groups_of st)] else []))"
| "ms (Seq a b) = (\<lambda>st. concat (map (ms b) (ms a st)))"
| "ms (Rep g lo hi r) = (\<lambda>st.
     rep g (ms r) lo (case hi of Some h \<Rightarrow> h | None \<Rightarrow> length (rest_of st)) st)"
| "ms (Group i r) = (\<lambda>st. map (set_group i st) (ms r st))"
| "ms Bol = (\<lambda>st. if fst st = None \<or> fst st = Some newline then [st] else [])"
| "ms Eol = (\<lambda>st. if rest_of st = [] \<or> hd (rest_of st) = newline then [st] else [])"

text \<open>A literal string, as \<^verbatim>\<open>re.escape\<close> makes of a key.\<close>

definition lits :: "string \<Rightarrow> regex \<Rightarrow> regex" where
  "lits s r = foldr (\<lambda>c. Seq (Atom (CChar c))) s r"

text \<open>\<^verbatim>\<open>re.match\<close>: the first way to match at the start of the text.\<close>

definition re_match :: "regex \<Rightarrow> string \<Rightarrow> mstate option" where
  "re_match r s = (case ms r (None, s, []) of [] \<Rightarrow> None | st # _ \<Rightarrow> Some st)"

text \<open>\<^verbatim>\<open>re.search\<close>: the first way to match at the leftmost position that has one.\<close>

fun search_from :: "regex \<Rightarrow> char option \<Rightarrow> string \<Rightarrow> mstate option" where
  "search_from r p [] = (case ms r (p, [], []) of [] \<Rightarrow> None | st # _ \<Rightarrow> Some st)"
| "search_from r p (c # cs) =
     (case ms r (p, c # cs, []) of [] \<Rightarrow> search_from r (Some c) cs | st # _ \<Rightarrow> Some st)"

definition re_search :: "regex \<Rightarrow> string \<Rightarrow> mstate option" where
  "re_search r s = search_from r None s"

text \<open>
  \<^verbatim>\<open>re.sub(pattern, "", s)\<close>: scanning from the left, every match is removed and the scan
  resumes after it; a position without a match keeps its character. A match that reads
  nothing removes nothing, so it is treated like no match.
\<close>

function sub_from :: "regex \<Rightarrow> char option \<Rightarrow> string \<Rightarrow> string" where
  "sub_from r p [] = []"
| "sub_from r p (c # cs) =
     (case ms r (p, c # cs, []) of
        [] \<Rightarrow> c # sub_from r (Some c) cs
      | st # _ \<Rightarrow>
          if length (rest_of st) < length (c # cs)
          then sub_from r (fst st) (rest_of st)
          else c # sub_from r (Some c) cs)"
  by pat_completeness auto
termination
  by (relation "measure (\<lambda>(r, p, s). length s)") auto

definition re_sub_empty :: "regex \<Rightarrow> string \<Rightarrow> string" where
  "re_sub_empty r s = sub_from r None s"

section \<open>The wikitext helpers\<close>

text \<open>
  \<^verbatim>\<open>_clean_wikitext\<close>, lines 38 to 42. The two \<^verbatim>\<open>re.sub\<close> calls remove
  \<^verbatim>\<open><ref[^>]*?>.*?</ref>\<close> (DOTALL) and then \<^verbatim>\<open><ref[^/>]*/>\<close>. The markup stripper
  \<^verbatim>\<open>mwparserfromhell.parse(value).strip_code()\<close> belongs to a third-party library, not to
  the repository: it is the parameter \<open>sc\<close>.
\<close>

definition ref_block_re :: regex where
  "ref_block_re =
     lits ''<ref'' (Seq (Rep False 0 None (Atom (CNot ''>'')))
       (Seq (Atom (CChar (CHR ''>'')))
         (Seq (Rep False 0 None (Atom CAny)) (lits ''</ref>'' Eps))))"

definition ref_self_re :: regex where
  "ref_self_re =
     lits ''<ref'' (Seq (Rep True 0 None (Atom (CNot ''/>''))) (lits ''/>'' Eps))"

definition remove_refs :: "string \<Rightarrow> string" where
  "remove_refs v = re_sub_empty ref_self_re (re_sub_empty ref_block_re v)"

definition clean_wikitext :: "(string \<Rightarrow> string) \<Rightarrow> string \<Rightarrow> string" where
  "clean_wikitext sc v = strip (sc (remove_refs v))"

text \<open>
  Modelled from the spec: the stripper of the third-party library, on text that holds no
  wiki markup for it to strip, returns the text as it is. The concrete examples below
  use it on such text only.
\<close>

definition no_markup :: "string \<Rightarrow> string" where
  "no_markup s = s"

text \<open>
  \<^verbatim>\<open>_parse_wiki_date\<close>, lines 45 to 51, with the pattern
  \<^verbatim>\<open>\{\{Start date\|(\d{4})\|(\d{1,2})\|(\d{1,2})\<close>.
\<close>

definition start_date_re :: regex where
  "start_date_re =
     lits ''{{Start date|'' (Seq (Group 1 (Rep True 4 (Some 4) (Atom CDigit)))
       (Seq (Atom (CChar (CHR ''|''))) (Seq (Group 2 (Rep True 1 (Some 2) (Atom CDigit)))
         (Seq (Atom (CChar (CHR ''|''))) (Group 3 (Rep True 1 (Some 2) (Atom CDigit)))))))"

definition parse_wiki_date :: "(string \<Rightarrow> string) \<Rightarrow> string \<Rightarrow> string option" where
  "parse_wiki_date sc v =
     (case re_search start_date_re v of
        Some m \<Rightarrow>
          Some (match_group 1 m @ ''-'' @ fmt02 (int_of_digits (match_group 2 m)) @ ''-''
                @ fmt02 (int_of_digits (match_group 3 m)))
      | None \<Rightarrow>
          (let cleaned = clean_wikitext sc v in if cleaned = [] then None else Some cleaned))"

text \<open>
  \<^verbatim>\<open>_extract_wikitext_field\<close>, lines 54 to 60, with the pattern
  \<^verbatim>\<open>^\|\s*KEY\s*=\s*(.+)$\<close> under MULTILINE, the key escaped.
\<close>

definition field_re :: "string \<Rightarrow> regex" where
  "field_re key =
     Seq Bol (Seq (Atom (CChar (CHR ''|''))) (Seq (Rep True 0 None (Atom CSpace))
       (lits key (Seq (Rep True 0 None (Atom CSpace)) (Seq (Atom (CChar (CHR ''='')))
         (Seq (Rep True 0 None (Atom CSpace))
           (Seq (Group 1 (Rep True 1 None (Atom CDot))) Eol)))))))"

fun extract_wikitext_field :: "string \<Rightarrow> string list \<Rightarrow> string option" where
  "extract_wikitext_field wikitext [] = None"
| "extract_wikitext_field wikitext (key # keys) =
     (case re_search (field_re key) wikitext of
        Some m \<Rightarrow> Some (strip (match_group 1 m))
      | None \<Rightarrow> extract_wikitext_field wikitext keys)"

section \<open>The Opera listing parser\<close>

text \<open>
  \<^verbatim>\<open>_parse_opera_listing\<close>, lines 192 to 208. The page is fetched and parsed by
  third-party libraries; what the loop reads of every \<^verbatim>\<open>a\<close> element is its \<^verbatim>\<open>href\<close>
  attribute, if it has one, and the visible text of its parent.
\<close>

record link =
  href :: "string option"
  row_text :: string

definition opera_href_re :: regex where
  "opera_href_re =
     Seq (Group 1 (Seq (Rep True 1 None (Atom CDigit)) (Seq (Atom (CChar (CHR ''.'')))
            (Seq (Rep True 1 None (Atom CDigit))
              (Rep True 1 (Some 2)
                 (Seq (Atom (CChar (CHR ''.''))) (Rep True 1 None (Atom CDigit))))))))
         (Rep True 0 (Some 1) (Atom (CChar (CHR ''/''))))"

definition iso_date_re :: regex where
  "iso_date_re =
     Group 1 (Seq (Rep True 4 (Some 4) (Atom CDigit)) (Seq (Atom (CChar (CHR ''-'')))
       (Seq (Rep True 2 (Some 2) (Atom CDigit)) (Seq (Atom (CChar (CHR ''-'')))
         (Rep True 2 (Some 2) (Atom CDigit))))))"

text \<open>The loop over the links, lines 196 to 204.\<close>

fun opera_versions :: "link list \<Rightarrow> (string \<times> string option) list" where
  "opera_versions [] = []"
| "opera_versions (l # ls) =
     (case re_match opera_href_re (case href l of None \<Rightarrow> [] | Some h \<Rightarrow> h) of
        None \<Rightarrow> opera_versions ls
      | Some m \<Rightarrow>
          (match_group 1 m,
           (case re_search iso_date_re (row_text l) of
              None \<Rightarrow> None
            | Some dm \<Rightarrow> Some (match_group 1 dm))) # opera_versions ls)"

text \<open>The sort key, \<^verbatim>\<open>[int(part) for part in item[0].split(".")]\<close>.\<close>

definition version_key :: "string \<times> string option \<Rightarrow> nat list" where
  "version_key item = map int_of_digits (split_on (CHR ''.'') (fst item))"

text \<open>
  \<^verbatim>\<open>list.sort(key=..., reverse=True)\<close>: Python reverses the list, sorts it stably in
  ascending order of the keys and reverses the result. Lists of integers compare
  lexicographically, a proper prefix being smaller.
\<close>

definition sort_reverse :: "('a \<Rightarrow> 'k::linorder) \<Rightarrow> 'a list \<Rightarrow> 'a list" where
  "sort_reverse key xs = rev (sort_key key (rev xs))"

definition parse_opera_links :: "link list \<Rightarrow> string option \<times> string option" where
  "parse_opera_links links =
     (let versions = opera_versions links in
      if versions = [] then (None, None)
      else (case sort_reverse version_key versions of
              (v, d) # _ \<Rightarrow> (Some v, d)
            | [] \<Rightarrow> (None, None)))"

section \<open>Python values, errors and the outside world\<close>

text \<open>
  Every \<^verbatim>\<open>raise\<close> is a value. \<open>RequestError\<close> stands for whatever \<^verbatim>\<open>requests.get\<close>,
  \<^verbatim>\<open>raise_for_status\<close> or \<^verbatim>\<open>response.json\<close> raise.
\<close>

datatype py_error = RequestError | IndexError | KeyError | TypeError | AttributeError | ValueError

definition bind :: "py_error + 'a \<Rightarrow> ('a \<Rightarrow> py_error + 'b) \<Rightarrow> py_error + 'b" where
  "bind m f = (case m of Inl e \<Rightarrow> Inl e | Inr x \<Rightarrow> f x)"

text \<open>
  What \<^verbatim>\<open>response.json()\<close> returns: \<^verbatim>\<open>None\<close>, a bool, an int, a float, a string, a list or
  a dict with string keys, in insertion order. A float is the 64 bits of its IEEE 754
  double; nothing below computes with them.
\<close>

type_synonym pyfloat = "64 word"

datatype jval =
    JNull
  | JBool bool
  | JInt int
  | JFloat pyfloat
  | JStr string
  | JArr "jval list"
  | JObj "(string \<times> jval) list"

text \<open>The dataclass of lines 18 to 23. The fields hold what the sources delivered.\<close>

record ReleaseInfo =
  version :: jval
  version_code :: jval
  release_date :: jval
  source :: string

text \<open>
  The outside world of one run: the responses of the three kinds of request, the clock,
  and the behaviour of library code that the repository does not contain
  (\<open>strip_code\<close>; \<^verbatim>\<open>str()\<close> of a float, list or dict; \<^verbatim>\<open>></\<close> between two numbers one of
  which is a float, or between two lists).
\<close>

record env =
  request_json :: "string \<Rightarrow> py_error + jval"
  listing_links :: "string \<Rightarrow> py_error + link list"
  wikipedia_api :: "string \<Rightarrow> py_error + jval"
  utcnow_isoformat :: string
  strip_code :: "string \<Rightarrow> string"
  str_other :: "jval \<Rightarrow> string"
  gt_other :: "jval \<Rightarrow> jval \<Rightarrow> py_error + bool"

text \<open>\<^verbatim>\<open>obj.get(key, default)\<close>; only a dict has the method.\<close>

fun py_get_default :: "jval \<Rightarrow> string \<Rightarrow> jval \<Rightarrow> py_error + jval" where
  "py_get_default (JObj kvs) k d = Inr (case map_of kvs k of None \<Rightarrow> d | Some v \<Rightarrow> v)"
| "py_get_default _ k d = Inl AttributeError"

definition py_get :: "jval \<Rightarrow> string \<Rightarrow> py_error + jval" where
  "py_get j k = py_get_default j k JNull"

text \<open>\<^verbatim>\<open>d.get(key)\<close> with a key that is itself a value: a list or dict is unhashable.\<close>

fun py_get_val :: "jval \<Rightarrow> jval \<Rightarrow> py_error + jval" where
  "py_get_val (JObj kvs) (JStr k) = Inr (case map_of kvs k of None \<Rightarrow> JNull | Some v \<Rightarrow> v)"
| "py_get_val (JObj kvs) (JArr xs) = Inl TypeError"
| "py_get_val (JObj kvs) (JObj ys) = Inl TypeError"
| "py_get_val (JObj kvs) _ = Inr JNull"
| "py_get_val _ _ = Inl AttributeError"

text \<open>\<^verbatim>\<open>data[0]\<close>.\<close>

fun py_index0 :: "jval \<Rightarrow> py_error + jval" where
  "py_index0 (JArr []) = Inl IndexError"
| "py_index0 (JArr (x # xs)) = Inr x"
| "py_index0 (JStr []) = Inl IndexError"
| "py_index0 (JStr (c # cs)) = Inr (JStr [c])"
| "py_index0 (JObj kvs) = Inl KeyError"
| "py_index0 _ = Inl TypeError"

text \<open>\<^verbatim>\<open>data["key"]\<close>.\<close>

fun py_subscript :: "jval \<Rightarrow> string \<Rightarrow> py_error + jval" where
  "py_subscript (JObj kvs) k = (case map_of kvs k of None \<Rightarrow> Inl KeyError | Some v \<Rightarrow> Inr v)"
| "py_subscript _ k = Inl TypeError"

text \<open>Iteration: a list gives its items, a string its characters, a dict its keys.\<close>

fun py_iter :: "jval \<Rightarrow> py_error + jval list" where
  "py_iter (JArr xs) = Inr xs"
| "py_iter (JStr s) = Inr (map (\<lambda>c. JStr [c]) s)"
| "py_iter (JObj kvs) = Inr (map (\<lambda>kv. JStr (fst kv)) kvs)"
| "py_iter _ = Inl TypeError"

definition str_int :: "int \<Rightarrow> string" where
  "str_int i = (if i < 0 then CHR ''-'' # str_nat (nat (- i)) else str_nat (nat i))"

text \<open>\<^verbatim>\<open>str(x)\<close>.\<close>

fun py_str :: "env \<Rightarrow> jval \<Rightarrow> string" where
  "py_str e JNull = ''None''"
| "py_str e (JBool b) = (if b then ''True'' else ''False'')"
| "py_str e (JInt i) = str_int i"
| "py_str e (JStr s) = s"
| "py_str e j = str_other e j"

text \<open>
  \<^verbatim>\<open>a > b\<close>: strings compare by code points, ints and bools as integers; a float with a
  number and a list with a list are left to the world; everything else is a TypeError.
\<close>

fun as_int :: "jval \<Rightarrow> int option" where
  "as_int (JInt i) = Some i"
| "as_int (JBool b) = Some (if b then 1 else 0)"
| "as_int _ = None"

fun is_number :: "jval \<Rightarrow> bool" where
  "is_number (JInt i) = True"
| "is_number (JBool b) = True"
| "is_number (JFloat f) = True"
| "is_number _ = False"

fun is_list :: "jval \<Rightarrow> bool" where
  "is_list (JArr xs) = True"
| "is_list _ = False"

fun py_gt :: "env \<Rightarrow> jval \<Rightarrow> jval \<Rightarrow> py_error + bool" where
  "py_gt e (JStr x) (JStr y) = Inr (y < x)"
| "py_gt e a b =
     (case (as_int a, as_int b) of
        (Some i, Some j) \<Rightarrow> Inr (j < i)
      | _ \<Rightarrow>
          if (is_number a \<and> is_number b) \<or> (is_list a \<and> is_list b) then gt_other e a b
          else Inl TypeError)"

section \<open>The fetchers\<close>

text \<open>A fetcher's result, \<^verbatim>\<open>dict[str, ReleaseInfo]\<close>, is a list of pairs in insertion order.\<close>

type_synonym channels = "(string \<times> ReleaseInfo) list"

text \<open>\<^verbatim>\<open>fetch_chrome\<close>, lines 114 to 128.\<close>

definition chrome_fetch :: "env \<Rightarrow> string \<Rightarrow> py_error + ReleaseInfo" where
  "chrome_fetch e channel =
     bind (request_json e (''https://chromiumdash.appspot.com/fetch_milestones?channel='' @ channel))
       (\<lambda>data. bind (py_index0 data)
       (\<lambda>entry. bind (py_get entry ''version'')
       (\<lambda>v. bind (py_get entry ''milestone'')
       (\<lambda>m. bind (py_get entry (if channel = ''Stable'' then ''stable_date'' else ''beta_date''))
       (\<lambda>d. Inr \<lparr>version = v, version_code = JStr (py_str e m), release_date = d,
                 source = ''https://chromiumdash.appspot.com/fetch_milestones''\<rparr>)))))"

definition fetch_chrome :: "env \<Rightarrow> py_error + channels" where
  "fetch_chrome e =
     bind (chrome_fetch e ''Stable'')
       (\<lambda>s. bind (chrome_fetch e ''Beta'')
       (\<lambda>b. Inr [(''stable'', s), (''beta'', b)]))"

text \<open>\<^verbatim>\<open>fetch_firefox\<close>, lines 131 to 156.\<close>

definition fetch_firefox :: "env \<Rightarrow> py_error + channels" where
  "fetch_firefox e =
     bind (request_json e ''https://product-details.mozilla.org/1.0/firefox_versions.json'')
       (\<lambda>versions. bind (request_json e
            ''https://product-details.mozilla.org/1.0/firefox_history_major_releases.json'')
       (\<lambda>history_stable. bind (request_json e
            ''https://product-details.mozilla.org/1.0/firefox_history_development_releases.json'')
       (\<lambda>history_dev. bind (py_get versions ''LATEST_FIREFOX_VERSION'')
       (\<lambda>stable_version. bind (py_get versions ''LATEST_FIREFOX_RELEASED_DEVEL_VERSION'')
       (\<lambda>beta_version. bind (py_get_val history_stable stable_version)
       (\<lambda>sd. bind (py_get_val history_dev beta_version)
       (\<lambda>bd. Inr
          [(''stable'', \<lparr>version = stable_version, version_code = stable_version,
              release_date = sd,
              source = ''https://product-details.mozilla.org/1.0/firefox_versions.json''\<rparr>),
           (''beta'', \<lparr>version = beta_version, version_code = beta_version,
              release_date = bd,
              source = ''https://product-details.mozilla.org/1.0/firefox_versions.json''\<rparr>)])))))))"

text \<open>
  \<^verbatim>\<open>fetch_edge\<close>, lines 159 to 189. \<open>find_product\<close> is the generator handed to \<^verbatim>\<open>next\<close>,
  \<open>max_loop\<close> and \<open>py_max\<close> are \<^verbatim>\<open>max(..., key=...)\<close>: the first item is the running maximum,
  and a later item replaces it when its key is greater.
\<close>

fun find_product :: "string \<Rightarrow> jval list \<Rightarrow> py_error + jval option" where
  "find_product name [] = Inr None"
| "find_product name (product # rest) =
     bind (py_get product ''Product'')
       (\<lambda>p. if p = JStr name then Inr (Some product) else find_product name rest)"

definition published_time :: "jval \<Rightarrow> py_error + jval" where
  "published_time item = py_get_default item ''PublishedTime'' (JStr [])"

fun max_loop :: "env \<Rightarrow> jval \<times> jval \<Rightarrow> jval list \<Rightarrow> py_error + jval" where
  "max_loop e (best, best_key) [] = Inr best"
| "max_loop e (best, best_key) (item # items) =
     bind (published_time item)
       (\<lambda>k. bind (py_gt e k best_key)
       (\<lambda>greater. max_loop e (if greater then (item, k) else (best, best_key)) items))"

fun py_max :: "env \<Rightarrow> jval list \<Rightarrow> py_error + jval" where
  "py_max e [] = Inl ValueError"
| "py_max e (item # items) = bind (published_time item) (\<lambda>k. max_loop e (item, k) items)"

definition edge_source :: string where
  "edge_source = ''https://edgeupdates.microsoft.com/api/products?view=enterprise''"

definition edge_channel :: "env \<Rightarrow> jval \<Rightarrow> string \<Rightarrow> py_error + ReleaseInfo" where
  "edge_channel e data channel_name =
     bind (py_iter data)
       (\<lambda>products. bind (find_product (''Microsoft Edge '' @ channel_name) products)
       (\<lambda>channel_data.
          (case channel_data of
             None \<Rightarrow> Inr \<lparr>version = JNull, version_code = JNull, release_date = JNull,
                          source = edge_source\<rparr>
           | Some cd \<Rightarrow>
               if cd = JObj [] then
                 Inr \<lparr>version = JNull, version_code = JNull, release_date = JNull,
                      source = edge_source\<rparr>
               else
                 bind (py_get_default cd ''Releases'' (JArr []))
                   (\<lambda>releases. bind (py_iter releases)
                   (\<lambda>items. bind (py_max e items)
                   (\<lambda>release. bind (py_get release ''ProductVersion'')
                   (\<lambda>v. bind (py_get release ''ReleaseId'')
                   (\<lambda>rid. bind (py_get release ''PublishedTime'')
                   (\<lambda>t. Inr \<lparr>version = v, version_code = JStr (py_str e rid),
                             release_date = t, source = edge_source\<rparr>)))))))))"

text \<open>
  The loop fills \<^verbatim>\<open>channels["stable"]\<close> and then \<^verbatim>\<open>channels["beta"]\<close>; the result reads
  both back.
\<close>

definition fetch_edge :: "env \<Rightarrow> py_error + channels" where
  "fetch_edge e =
     bind (request_json e edge_source)
       (\<lambda>data. bind (edge_channel e data ''Stable'')
       (\<lambda>s. bind (edge_channel e data ''Beta'')
       (\<lambda>b. Inr [(''stable'', s), (''beta'', b)])))"

text \<open>\<^verbatim>\<open>_parse_opera_listing\<close> with its request, and \<^verbatim>\<open>fetch_opera\<close>, lines 211 to 229.\<close>

definition parse_opera_listing ::
  "env \<Rightarrow> string \<Rightarrow> py_error + (string option \<times> string option)" where
  "parse_opera_listing e url = bind (listing_links e url) (\<lambda>links. Inr (parse_opera_links links))"

definition opt_str :: "string option \<Rightarrow> jval" where
  "opt_str x = (case x of None \<Rightarrow> JNull | Some s \<Rightarrow> JStr s)"

definition fetch_opera :: "env \<Rightarrow> py_error + channels" where
  "fetch_opera e =
     bind (parse_opera_listing e ''https://get.geo.opera.com/pub/opera/desktop/'')
       (\<lambda>stable. bind (parse_opera_listing e ''https://get.geo.opera.com/pub/opera-beta/'')
       (\<lambda>beta. Inr
          [(''stable'', \<lparr>version = opt_str (fst stable), version_code = opt_str (fst stable),
              release_date = opt_str (snd stable),
              source = ''https://get.geo.opera.com/pub/opera/desktop/''\<rparr>),
           (''beta'', \<lparr>version = opt_str (fst beta), version_code = opt_str (fst beta),
              release_date = opt_str (snd beta),
              source = ''https://get.geo.opera.com/pub/opera-beta/''\<rparr>)]))"

text \<open>
  \<^verbatim>\<open>_fetch_wikipedia_wikitext\<close>, lines 63 to 74, and \<^verbatim>\<open>_from_wikipedia\<close>, lines 77 to 111.
  The wikitext is whatever the response holds under \<^verbatim>\<open>["parse"]["wikitext"]["*"]\<close>; when
  it is not a string, the first \<^verbatim>\<open>re.search\<close> on it raises a TypeError.
\<close>

definition fetch_wikipedia_wikitext :: "env \<Rightarrow> string \<Rightarrow> py_error + jval" where
  "fetch_wikipedia_wikitext e page =
     bind (wikipedia_api e page)
       (\<lambda>data. bind (py_subscript data ''parse'')
       (\<lambda>a. bind (py_subscript a ''wikitext'')
       (\<lambda>b. py_subscript b ''*'')))"

definition extract_field :: "jval \<Rightarrow> string list \<Rightarrow> py_error + string option" where
  "extract_field wikitext keys =
     (if keys = [] then Inr None
      else (case wikitext of
              JStr w \<Rightarrow> Inr (extract_wikitext_field w keys)
            | _ \<Rightarrow> Inl TypeError))"

text \<open>\<^verbatim>\<open>x if raw else None\<close>: a raw value counts when it is a non-empty string.\<close>

definition clean_field :: "env \<Rightarrow> string option \<Rightarrow> jval" where
  "clean_field e raw =
     (case raw of
        None \<Rightarrow> JNull
      | Some r \<Rightarrow> if r = [] then JNull else JStr (clean_wikitext (strip_code e) r))"

definition code_field :: "env \<Rightarrow> string option \<Rightarrow> string option \<Rightarrow> jval" where
  "code_field e code_raw version_raw =
     (case code_raw of
        None \<Rightarrow> clean_field e version_raw
      | Some c \<Rightarrow>
          if c = [] then clean_field e version_raw
          else JStr (clean_wikitext (strip_code e) c))"

definition date_field :: "env \<Rightarrow> string option \<Rightarrow> jval" where
  "date_field e raw =
     (case raw of
        None \<Rightarrow> JNull
      | Some r \<Rightarrow> if r = [] then JNull else opt_str (parse_wiki_date (strip_code e) r))"

definition or_empty :: "string list option \<Rightarrow> string list" where
  "or_empty keys = (case keys of None \<Rightarrow> [] | Some ks \<Rightarrow> ks)"

definition from_wikipedia ::
  "env \<Rightarrow> string \<Rightarrow> string list \<Rightarrow> string list \<Rightarrow> string list \<Rightarrow> string list \<Rightarrow>
   string list option \<Rightarrow> string list option \<Rightarrow> py_error + channels" where
  "from_wikipedia e page stable_version_keys stable_date_keys beta_version_keys beta_date_keys
      stable_code_keys beta_code_keys =
     bind (fetch_wikipedia_wikitext e page)
       (\<lambda>wikitext. bind (extract_field wikitext stable_version_keys)
       (\<lambda>stable_version_raw. bind (extract_field wikitext stable_date_keys)
       (\<lambda>stable_date_raw. bind (extract_field wikitext (or_empty stable_code_keys))
       (\<lambda>stable_code_raw. bind (extract_field wikitext beta_version_keys)
       (\<lambda>beta_version_raw. bind (extract_field wikitext beta_date_keys)
       (\<lambda>beta_date_raw. bind (extract_field wikitext (or_empty beta_code_keys))
       (\<lambda>beta_code_raw. Inr
          [(''stable'', \<lparr>version = clean_field e stable_version_raw,
              version_code = code_field e stable_code_raw stable_version_raw,
              release_date = date_field e stable_date_raw,
              source = ''https://en.wikipedia.org/wiki/'' @ page\<rparr>),
           (''beta'', \<lparr>version = clean_field e beta_version_raw,
              version_code = code_field e beta_code_raw beta_version_raw,
              release_date = date_field e beta_date_raw,
              source = ''https://en.wikipedia.org/wiki/'' @ page\<rparr>)])))))))"

text \<open>The seven Wikipedia fetchers, lines 232 to 299.\<close>

definition fetch_safari :: "env \<Rightarrow> py_error + channels" where
  "fetch_safari e =
     from_wikipedia e ''Safari_(web_browser)''
       [''latest_release_version'', ''latest_release'']
       [''latest_release_date'', ''latest_release_date'']
       [''latest_preview_version'', ''latest_beta_version'', ''latest_release_version'']
       [''latest_preview_date'', ''latest_beta_release_date'', ''latest_release_date'']
       None None"

definition wiki_default :: "env \<Rightarrow> string \<Rightarrow> py_error + channels" where
  "wiki_default e page =
     from_wikipedia e page
       [''latest_release_version'', ''latest_release'']
       [''latest_release_date'', ''latest_release_date'']
       [''latest_preview_version'', ''latest_beta_version'']
       [''latest_preview_date'', ''latest_beta_release_date'']
       None None"

definition fetch_whale :: "env \<Rightarrow> py_error + channels" where
  "fetch_whale e = wiki_default e ''Whale_(web_browser)''"

definition fetch_windows :: "env \<Rightarrow> py_error + channels" where
  "fetch_windows e = wiki_default e ''Windows_11''"

definition fetch_macos :: "env \<Rightarrow> py_error + channels" where
  "fetch_macos e = wiki_default e ''macOS''"

definition fetch_android :: "env \<Rightarrow> py_error + channels" where
  "fetch_android e = wiki_default e ''Android_(operating_system)''"

definition fetch_ios :: "env \<Rightarrow> py_error + channels" where
  "fetch_ios e = wiki_default e ''iOS''"

definition fetch_ipados :: "env \<Rightarrow> py_error + channels" where
  "fetch_ipados e = wiki_default e ''iPadOS''"

section \<open>The aggregator and the serializer\<close>

text \<open>
  The values \<^verbatim>\<open>collect_all\<close> builds and \<^verbatim>\<open>_serialize\<close> walks: a plain value, a
  \<^verbatim>\<open>ReleaseInfo\<close> instance, or a dict of such values.
\<close>

datatype pyobj =
    PVal jval
  | PRelease ReleaseInfo
  | PDict "(string \<times> pyobj) list"

definition channels_obj :: "channels \<Rightarrow> pyobj" where
  "channels_obj d = PDict (map (\<lambda>kv. (fst kv, PRelease (snd kv))) d)"

text \<open>\<^verbatim>\<open>collect_all\<close>, lines 302 to 320: the fetchers run in the order of the literal.\<close>

definition collect_all :: "env \<Rightarrow> py_error + pyobj" where
  "collect_all e =
     bind (fetch_windows e) (\<lambda>windows. bind (fetch_macos e)
       (\<lambda>macos. bind (fetch_android e) (\<lambda>android. bind (fetch_ios e)
       (\<lambda>ios. bind (fetch_ipados e) (\<lambda>ipados. bind (fetch_chrome e)
       (\<lambda>chrome. bind (fetch_firefox e) (\<lambda>firefox. bind (fetch_opera e)
       (\<lambda>opera. bind (fetch_edge e) (\<lambda>edge. bind (fetch_safari e)
       (\<lambda>safari. bind (fetch_whale e) (\<lambda>whale. Inr (PDict
          [(''generated_at'', PVal (JStr (utcnow_isoformat e @ ''Z''))),
           (''operating_systems'', PDict
              [(''windows'', channels_obj windows),
               (''macos'', channels_obj macos),
               (''android'', channels_obj android),
               (''ios'', channels_obj ios),
               (''ipados'', channels_obj ipados)]),
           (''browsers'', PDict
              [(''chrome'', channels_obj chrome),
               (''firefox'', channels_obj firefox),
               (''opera'', channels_obj opera),
               (''edge'', channels_obj edge),
               (''safari'', channels_obj safari),
               (''whale'', channels_obj whale)])]))))))))))))"

text \<open>\<^verbatim>\<open>_serialize\<close>, lines 323 to 331; \<open>asdict\<close> is \<^verbatim>\<open>dataclasses.asdict\<close> on a ReleaseInfo.\<close>

definition asdict :: "ReleaseInfo \<Rightarrow> (string \<times> pyobj) list" where
  "asdict r =
     [(''version'', PVal (version r)), (''version_code'', PVal (version_code r)),
      (''release_date'', PVal (release_date r)), (''source'', PVal (JStr (source r)))]"

fun convert :: "pyobj \<Rightarrow> pyobj" where
  "convert (PRelease r) = PDict (asdict r)"
| "convert (PDict kvs) = PDict (map (\<lambda>kv. (fst kv, convert (snd kv))) kvs)"
| "convert (PVal j) = PVal j"

definition serialize :: "pyobj \<Rightarrow> pyobj" where
  "serialize data = convert data"

section \<open>Predicates and example worlds used in the statements\<close>


text \<open>The eleven fetchers, in the order \<^verbatim>\<open>collect_all\<close> calls them.\<close>

definition fetchers :: "(env \<Rightarrow> py_error + channels) list" where
  "fetchers = [fetch_windows, fetch_macos, fetch_android, fetch_ios, fetch_ipados,
     fetch_chrome, fetch_firefox, fetch_opera, fetch_edge, fetch_safari, fetch_whale]"

definition is_channel_pair :: "pyobj \<Rightarrow> bool" where
  "is_channel_pair v =
     (case v of
        PDict [(k1, PRelease s), (k2, PRelease b)] \<Rightarrow> k1 = ''stable'' \<and> k2 = ''beta''
      | _ \<Rightarrow> False)"

definition wiki_page :: "string \<Rightarrow> jval" where
  "wiki_page w = JObj [(''parse'', JObj [(''title'', JStr ''x''), (''wikitext'', JObj [(''*'', JStr w)])])]"

definition sample_wikitext :: string where
  "sample_wikitext = ''|latest_release = 17.2''"

definition sample_chrome_beta :: "(string \<times> jval) list" where
  "sample_chrome_beta =
     [(''version'', JStr ''121.0.6167.16''), (''beta_date'', JStr ''2023-12-13T00:00:00'')]"

definition sample_release_old :: "(string \<times> jval) list" where
  "sample_release_old =
     [(''ProductVersion'', JStr ''119.0.2151.97''), (''ReleaseId'', JInt 7001),
      (''PublishedTime'', JStr ''2023-11-29T18:00:00'')]"

definition sample_release_new :: "(string \<times> jval) list" where
  "sample_release_new =
     [(''ProductVersion'', JStr ''120.0.2210.61''),
      (''PublishedTime'', JStr ''2023-12-07T18:00:00'')]"

definition sample_edge_product :: jval where
  "sample_edge_product =
     JObj [(''Product'', JStr ''Microsoft Edge Stable''),
           (''Releases'', JArr [JObj sample_release_old, JObj sample_release_new])]"

definition sample_json :: "string \<Rightarrow> py_error + jval" where
  "sample_json url =
     (if url = ''https://chromiumdash.appspot.com/fetch_milestones?channel=Stable'' then
        Inr (JArr [JObj [(''version'', JStr ''120.0.6099.109''), (''milestone'', JInt 120),
                         (''stable_date'', JStr ''2023-12-05T00:00:00'')]])
      else if url = ''https://chromiumdash.appspot.com/fetch_milestones?channel=Beta'' then
        Inr (JArr [JObj sample_chrome_beta])
      else if url = ''https://product-details.mozilla.org/1.0/firefox_versions.json'' then
        Inr (JObj [(''LATEST_FIREFOX_VERSION'', JStr ''121.0''),
                   (''LATEST_FIREFOX_RELEASED_DEVEL_VERSION'', JStr ''122.0b3'')])
      else if url = ''https://product-details.mozilla.org/1.0/firefox_history_major_releases.json'' then
        Inr (JObj [(''120.0'', JStr ''2023-11-21''), (''121.0'', JStr ''2023-12-19'')])
      else if url = ''https://product-details.mozilla.org/1.0/firefox_history_development_releases.json'' then
        Inr (JObj [(''122.0b1'', JStr ''2023-12-18'')])
      else if url = edge_source then Inr (JArr [sample_edge_product])
      else Inl RequestError)"

definition sample_links :: "link list" where
  "sample_links =
     [\<lparr>href = Some ''../'', row_text = ''../''\<rparr>,
      \<lparr>href = Some ''90.0.4480.84/'', row_text = ''90.0.4480.84/ 2023-08-01 10:12 -''\<rparr>,
      \<lparr>href = Some ''91.0.4516.20/'', row_text = ''91.0.4516.20/ 2023-09-10 08:30 -''\<rparr>]"

definition sample_world :: env where
  "sample_world =
     \<lparr>request_json = sample_json, listing_links = (\<lambda>u. Inr sample_links),
      wikipedia_api = (\<lambda>p. Inr (wiki_page sample_wikitext)),
      utcnow_isoformat = ''2024-05-01T12:00:00'',
      strip_code = no_markup, str_other = (\<lambda>j. []), gt_other = (\<lambda>a b. Inl TypeError)\<rparr>"

definition returns :: "py_error + 'a \<Rightarrow> bool" where
  "returns m = (case m of Inr x \<Rightarrow> True | Inl e \<Rightarrow> False)"

definition is_release_dict :: "pyobj \<Rightarrow> bool" where
  "is_release_dict v =
     (case v of
        PDict [(k1, PVal a), (k2, PVal b), (k3, PVal c), (k4, PVal (JStr d))] \<Rightarrow>
          k1 = ''version'' \<and> k2 = ''version_code'' \<and> k3 = ''release_date'' \<and> k4 = ''source''
      | _ \<Rightarrow> False)"

definition is_channel_dict :: "pyobj \<Rightarrow> bool" where
  "is_channel_dict v =
     (case v of
        PDict [(k1, s), (k2, b)] \<Rightarrow>
          k1 = ''stable'' \<and> k2 = ''beta'' \<and> is_release_dict s \<and> is_release_dict b
      | _ \<Rightarrow> False)"

text \<open>
  Reading the text \<open>u\<close> from a position whose previous character is \<open>p\<close> leaves the last
  character of \<open>u\<close> as the previous one.
\<close>

definition prev_after :: "char option \<Rightarrow> string \<Rightarrow> char option" where
  "prev_after p u = (if u = [] then p else Some (last u))"

text \<open>\<open>first r st m\<close>: the way \<open>r\<close> matches at \<open>st\<close> that Python's engine finds first is \<open>m\<close>.\<close>

definition first :: "regex \<Rightarrow> mstate \<Rightarrow> mstate \<Rightarrow> bool" where
  "first r st m = (case ms r st of [] \<Rightarrow> False | x # _ \<Rightarrow> x = m)"




text \<open>
  Field values built from plain text without \<^verbatim>\<open><\<close>, complete reference blocks
  \<^verbatim>\<open><ref ATTRS>BODY</ref>\<close> and self-closing tags \<^verbatim>\<open><ref ATTRS/>\<close>.
\<close>

datatype piece = Txt string | RefBlock string string | RefSelf string

fun render_piece :: "piece \<Rightarrow> string" where
  "render_piece (Txt t) = t"
| "render_piece (RefBlock a b) = ''<ref'' @ a @ ''>'' @ b @ ''</ref>''"
| "render_piece (RefSelf a) = ''<ref'' @ a @ ''/>''"


definition render :: "piece list \<Rightarrow> string" where
  "render ps = concat (map render_piece ps)"







section \<open>Basic facts\<close>

lemma strip_Nil: "strip [] = []"
  by (simp add: strip_def)

lemma bind_Inl [simp]: "bind (Inl e) f = Inl e"
  by (simp add: bind_def)

lemma bind_Inr [simp]: "bind (Inr x) f = f x"
  by (simp add: bind_def)

lemma bind_eq_Inr: "(bind m f = Inr y) = (\<exists>x. m = Inr x \<and> f x = Inr y)"
  by (cases m) simp_all







lemma max_loop_Inr: "max_loop e (b, bk) items = Inr r \<Longrightarrow> r = b \<or> r \<in> set items"
proof (induction items arbitrary: b bk)
  case Nil
  then show ?case by simp
next
  case (Cons i items)
  then show ?case by (fastforce simp: bind_eq_Inr split: if_splits)
qed





lemma from_wikipedia_shape:
  "from_wikipedia e page a b c d x y = Inr r \<Longrightarrow> \<exists>s t. r = [(''stable'', s), (''beta'', t)]"
  unfolding from_wikipedia_def by (auto simp: bind_eq_Inr)

lemma fetch_chrome_shape: "fetch_chrome e = Inr r \<Longrightarrow> \<exists>s t. r = [(''stable'', s), (''beta'', t)]"
  unfolding fetch_chrome_def by (auto simp: bind_eq_Inr)

lemma fetch_firefox_shape: "fetch_firefox e = Inr r \<Longrightarrow> \<exists>s t. r = [(''stable'', s), (''beta'', t)]"
  unfolding fetch_firefox_def by (auto simp: bind_eq_Inr)

lemma fetch_edge_shape: "fetch_edge e = Inr r \<Longrightarrow> \<exists>s t. r = [(''stable'', s), (''beta'', t)]"
  unfolding fetch_edge_def by (auto simp: bind_eq_Inr)

lemma fetch_opera_shape: "fetch_opera e = Inr r \<Longrightarrow> \<exists>s t. r = [(''stable'', s), (''beta'', t)]"
  unfolding fetch_opera_def by (auto simp: bind_eq_Inr)

lemma fetcher_shape:
  assumes "f \<in> set fetchers" and "f e = Inr r"
  shows "\<exists>s t. r = [(''stable'', s), (''beta'', t)]"
proof -
  have w: "\<And>p. wiki_default e p = Inr r \<Longrightarrow> ?thesis"
    unfolding wiki_default_def by (rule from_wikipedia_shape)
  from assms(1) consider "f = fetch_windows" | "f = fetch_macos" | "f = fetch_android"
    | "f = fetch_ios" | "f = fetch_ipados" | "f = fetch_chrome" | "f = fetch_firefox"
    | "f = fetch_opera" | "f = fetch_edge" | "f = fetch_safari" | "f = fetch_whale"
    unfolding fetchers_def by auto
  then show ?thesis
  proof cases
    case 1 with assms(2) w show ?thesis by (simp add: fetch_windows_def)
  next
    case 2 with assms(2) w show ?thesis by (simp add: fetch_macos_def)
  next
    case 3 with assms(2) w show ?thesis by (simp add: fetch_android_def)
  next
    case 4 with assms(2) w show ?thesis by (simp add: fetch_ios_def)
  next
    case 5 with assms(2) w show ?thesis by (simp add: fetch_ipados_def)
  next
    case 6 with assms(2) show ?thesis by (simp add: fetch_chrome_shape)
  next
    case 7 with assms(2) show ?thesis by (simp add: fetch_firefox_shape)
  next
    case 8 with assms(2) show ?thesis by (simp add: fetch_opera_shape)
  next
    case 9 with assms(2) show ?thesis by (simp add: fetch_edge_shape)
  next
    case 10 with assms(2) show ?thesis
      unfolding fetch_safari_def by (simp add: from_wikipedia_shape)
  next
    case 11 with assms(2) w show ?thesis by (simp add: fetch_whale_def)
  qed
qed

lemma channels_obj_pair:
  "is_channel_pair (channels_obj [(''stable'', s), (''beta'', t)])"
  by (simp add: channels_obj_def is_channel_pair_def)

lemma collect_all_shape:
  assumes "collect_all e = Inr snap"
  shows "\<exists>ts os br. snap = PDict [(''generated_at'', PVal (JStr ts)),
            (''operating_systems'', PDict os), (''browsers'', PDict br)]
       \<and> map fst os = [''windows'', ''macos'', ''android'', ''ios'', ''ipados'']
       \<and> map fst br = [''chrome'', ''firefox'', ''opera'', ''edge'', ''safari'', ''whale'']
       \<and> list_all is_channel_pair (map snd os) \<and> list_all is_channel_pair (map snd br)"
proof -
  from assms obtain windows macos android ios ipados chrome firefox opera edge safari whale
    where f: "fetch_windows e = Inr windows" "fetch_macos e = Inr macos"
      "fetch_android e = Inr android" "fetch_ios e = Inr ios" "fetch_ipados e = Inr ipados"
      "fetch_chrome e = Inr chrome" "fetch_firefox e = Inr firefox" "fetch_opera e = Inr opera"
      "fetch_edge e = Inr edge" "fetch_safari e = Inr safari" "fetch_whale e = Inr whale"
    and s: "snap = PDict
          [(''generated_at'', PVal (JStr (utcnow_isoformat e @ ''Z''))),
           (''operating_systems'', PDict
              [(''windows'', channels_obj windows),
               (''macos'', channels_obj macos),
               (''android'', channels_obj android),
               (''ios'', channels_obj ios),
               (''ipados'', channels_obj ipados)]),
           (''browsers'', PDict
              [(''chrome'', channels_obj chrome),
               (''firefox'', channels_obj firefox),
               (''opera'', channels_obj opera),
               (''edge'', channels_obj edge),
               (''safari'', channels_obj safari),
               (''whale'', channels_obj whale)])]"
    unfolding collect_all_def by (auto simp: bind_eq_Inr)
  have p: "\<And>f r. f \<in> set fetchers \<Longrightarrow> f e = Inr r \<Longrightarrow> is_channel_pair (channels_obj r)"
    using fetcher_shape channels_obj_pair by blast
  have m: "fetch_windows \<in> set fetchers" "fetch_macos \<in> set fetchers"
      "fetch_android \<in> set fetchers" "fetch_ios \<in> set fetchers" "fetch_ipados \<in> set fetchers"
      "fetch_chrome \<in> set fetchers" "fetch_firefox \<in> set fetchers" "fetch_opera \<in> set fetchers"
      "fetch_edge \<in> set fetchers" "fetch_safari \<in> set fetchers" "fetch_whale \<in> set fetchers"
    by (simp_all add: fetchers_def)
  show ?thesis
    unfolding s using f m p by simp
qed

lemma returns_iff: "returns m = (\<exists>x. m = Inr x)"
  by (cases m) (simp_all add: returns_def)

lemma sample_wiki_returns: "returns (wiki_default sample_world page)"
  by code_simp

lemma sample_safari_returns: "returns (fetch_safari sample_world)"
  by code_simp

lemma sample_chrome_returns: "returns (fetch_chrome sample_world)"
  by code_simp

lemma sample_firefox_returns: "returns (fetch_firefox sample_world)"
  by code_simp

lemma sample_edge_returns: "returns (fetch_edge sample_world)"
  by code_simp

lemma sample_opera_returns: "returns (fetch_opera sample_world)"
  by code_simp

lemma sample_collect_all_returns: "\<exists>snap. collect_all sample_world = Inr snap"
proof -
  obtain w where w: "\<And>page. \<exists>r. wiki_default sample_world page = Inr r"
    using sample_wiki_returns by (simp add: returns_iff)
  then obtain a b c d f where "fetch_windows sample_world = Inr a" "fetch_macos sample_world = Inr b"
    "fetch_android sample_world = Inr c" "fetch_ios sample_world = Inr d" "fetch_ipados sample_world = Inr f"
    unfolding fetch_windows_def fetch_macos_def fetch_android_def fetch_ios_def fetch_ipados_def
    by metis
  moreover obtain g where "fetch_whale sample_world = Inr g"
    unfolding fetch_whale_def using w by metis
  moreover obtain h i j k l where "fetch_chrome sample_world = Inr h" "fetch_firefox sample_world = Inr i"
    "fetch_opera sample_world = Inr j" "fetch_edge sample_world = Inr k" "fetch_safari sample_world = Inr l"
    using sample_chrome_returns sample_firefox_returns sample_opera_returns sample_edge_returns
      sample_safari_returns by (auto simp: returns_iff)
  ultimately show ?thesis
    by (simp add: collect_all_def)
qed










lemma is_channel_pairD:
  "is_channel_pair v \<Longrightarrow> \<exists>s b. v = PDict [(''stable'', PRelease s), (''beta'', PRelease b)]"
  unfolding is_channel_pair_def
  by (auto split: pyobj.splits list.splits prod.splits)

lemma is_release_dict_asdict: "is_release_dict (PDict (asdict r))"
  by (simp add: is_release_dict_def asdict_def)

lemma convert_channel_pair:
  assumes "is_channel_pair v"
  shows "is_channel_dict (convert v)"
proof -
  from assms obtain s b where "v = PDict [(''stable'', PRelease s), (''beta'', PRelease b)]"
    using is_channel_pairD by blast
  then show ?thesis
    by (simp add: is_channel_dict_def is_release_dict_asdict)
qed

lemma list_all_convert:
  "list_all is_channel_pair (map snd kvs) \<Longrightarrow>
     list_all is_channel_dict (map snd (map (\<lambda>kv. (fst kv, convert (snd kv))) kvs))"
  by (induction kvs) (simp_all add: convert_channel_pair)

text \<open>
  Claim C1. Whenever \<^verbatim>\<open>collect_all\<close> returns, its result holds \<^verbatim>\<open>generated_at\<close>, the five
  operating-system keys and the six browser keys, all in the declared order, and every
  such key maps to a dict with exactly the keys \<^verbatim>\<open>stable\<close> and \<^verbatim>\<open>beta\<close>, each a
  ReleaseInfo, whatever its fields hold. The serialized snapshot has the same keys, and
  every ReleaseInfo has become a dict with its four field names.
\<close>

theorem snapshot_keys:
  assumes "collect_all e = Inr snap"
  shows "\<exists>ts os br.
      snap = PDict [(''generated_at'', PVal (JStr ts)), (''operating_systems'', PDict os),
                    (''browsers'', PDict br)]
      \<and> map fst os = [''windows'', ''macos'', ''android'', ''ios'', ''ipados'']
      \<and> map fst br = [''chrome'', ''firefox'', ''opera'', ''edge'', ''safari'', ''whale'']
      \<and> list_all is_channel_pair (map snd os) \<and> list_all is_channel_pair (map snd br)
      \<and> (\<exists>os' br'.
            serialize snap = PDict [(''generated_at'', PVal (JStr ts)),
                 (''operating_systems'', PDict os'), (''browsers'', PDict br')]
            \<and> map fst os' = map fst os \<and> map fst br' = map fst br
            \<and> list_all is_channel_dict (map snd os') \<and> list_all is_channel_dict (map snd br'))"
proof -
  from collect_all_shape[OF assms] obtain ts os br where
    s: "snap = PDict [(''generated_at'', PVal (JStr ts)), (''operating_systems'', PDict os),
                    (''browsers'', PDict br)]"
    and k: "map fst os = [''windows'', ''macos'', ''android'', ''ios'', ''ipados'']"
      "map fst br = [''chrome'', ''firefox'', ''opera'', ''edge'', ''safari'', ''whale'']"
    and p: "list_all is_channel_pair (map snd os)" "list_all is_channel_pair (map snd br)"
    by (elim exE conjE) (rule that)
  let ?os = "map (\<lambda>kv. (fst kv, convert (snd kv))) os"
  let ?br = "map (\<lambda>kv. (fst kv, convert (snd kv))) br"
  have z: "serialize snap = PDict [(''generated_at'', PVal (JStr ts)),
                 (''operating_systems'', PDict ?os), (''browsers'', PDict ?br)]"
    by (simp add: s serialize_def)
  have m: "map fst ?os = map fst os" "map fst ?br = map fst br"
    by (simp_all add: comp_def)
  have c: "list_all is_channel_dict (map snd ?os)" "list_all is_channel_dict (map snd ?br)"
    by (rule list_all_convert, rule p(1)) (rule list_all_convert, rule p(2))
  have x: "\<exists>os' br'.
            serialize snap = PDict [(''generated_at'', PVal (JStr ts)),
                 (''operating_systems'', PDict os'), (''browsers'', PDict br')]
            \<and> map fst os' = map fst os \<and> map fst br' = map fst br
            \<and> list_all is_channel_dict (map snd os') \<and> list_all is_channel_dict (map snd br')"
    by (rule exI[of _ ?os], rule exI[of _ ?br]) (intro conjI z m c)
  show ?thesis
    by (rule exI[of _ ts], rule exI[of _ os], rule exI[of _ br]) (intro conjI s k p x)
qed

theorem snapshot_keys_witness:
  "\<exists>snap ts os br.
      collect_all sample_world = Inr snap
      \<and> snap = PDict [(''generated_at'', PVal (JStr ts)), (''operating_systems'', PDict os),
                    (''browsers'', PDict br)]
      \<and> map fst os = [''windows'', ''macos'', ''android'', ''ios'', ''ipados'']
      \<and> map fst br = [''chrome'', ''firefox'', ''opera'', ''edge'', ''safari'', ''whale'']
      \<and> list_all is_channel_pair (map snd os) \<and> list_all is_channel_pair (map snd br)"
proof -
  from sample_collect_all_returns obtain snap where r: "collect_all sample_world = Inr snap"
    by blast
  from snapshot_keys[OF r] obtain ts os br where
    "snap = PDict [(''generated_at'', PVal (JStr ts)), (''operating_systems'', PDict os),
                    (''browsers'', PDict br)]"
    "map fst os = [''windows'', ''macos'', ''android'', ''ios'', ''ipados'']"
    "map fst br = [''chrome'', ''firefox'', ''opera'', ''edge'', ''safari'', ''whale'']"
    "list_all is_channel_pair (map snd os)" "list_all is_channel_pair (map snd br)"
    by (elim exE conjE) (rule that)
  note f = this
  show ?thesis
    by (rule exI[of _ snap], rule exI[of _ ts], rule exI[of _ os], rule exI[of _ br])
       (intro conjI r f)

qed

section \<open>Facts about the matcher\<close>

lemma rest_of_simp [simp]: "rest_of (p, s, g) = s"
  by (simp add: rest_of_def)

lemma groups_of_simp [simp]: "groups_of (p, s, g) = g"
  by (simp add: groups_of_def)

lemma prev_after_Nil [simp]: "prev_after p [] = p"
  by (simp add: prev_after_def)

lemma prev_after_Cons [simp]: "prev_after p (x # u) = prev_after (Some x) u"
  by (simp add: prev_after_def)

lemma prev_after_append [simp]: "prev_after p (u @ v) = prev_after (prev_after p u) v"
  by (simp add: prev_after_def)

lemma first_iff: "first r st m = (\<exists>tl. ms r st = m # tl)"
  by (cases "ms r st") (auto simp: first_def)

lemma ms_Atom_Cons [simp]:
  "ms (Atom k) (p, c # cs, g) = (if cmatch k c then [(Some c, cs, g)] else [])"
  by simp

lemma ms_Atom_Nil [simp]: "ms (Atom k) (p, [], g) = []"
  by simp

lemma ms_Seq: "ms (Seq a b) st = concat (map (ms b) (ms a st))"
  by simp



lemma ms_Eps [simp]: "ms Eps st = [st]"
  by simp

lemma ms_Bol [simp]:
  "ms Bol (p, s, g) = (if p = None \<or> p = Some newline then [(p, s, g)] else [])"
  by simp

lemma ms_Eol [simp]:
  "ms Eol (p, s, g) = (if s = [] \<or> hd s = newline then [(p, s, g)] else [])"
  by simp

declare ms.simps [simp del]






lemma first_Bol: "p = None \<or> p = Some newline \<Longrightarrow> first Bol (p, s, g) (p, s, g)"
  by (simp add: first_iff)

lemma first_Eol: "s = [] \<or> hd s = newline \<Longrightarrow> first Eol (p, s, g) (p, s, g)"
  by (simp add: first_iff)



lemma ms_Seq_empty: "(ms (Seq a b) st = []) = (\<forall>x \<in> set (ms a st). ms b x = [])"
  by (auto simp: ms_Seq)






lemma search_from_first:
  assumes "first r (prev_after p u, v, []) m"
    and "\<And>u1 u2. u = u1 @ u2 \<Longrightarrow> u2 \<noteq> [] \<Longrightarrow> ms r (prev_after p u1, u2 @ v, []) = []"
  shows "search_from r p (u @ v) = Some m"
  using assms
proof (induction u arbitrary: p)
  case Nil
  then show ?case by (cases v) (auto simp: first_iff)
next
  case (Cons x u)
  have e: "ms r (p, (x # u) @ v, []) = []"
    using Cons.prems(2)[of "[]" "x # u"] by simp
  have "search_from r (Some x) (u @ v) = Some m"
  proof (rule Cons.IH)
    show "first r (prev_after (Some x) u, v, []) m" using Cons.prems(1) by simp
    fix u1 u2 assume "u = u1 @ u2" "u2 \<noteq> []"
    then show "ms r (prev_after (Some x) u1, u2 @ v, []) = []"
      using Cons.prems(2)[of "x # u1" u2] by simp
  qed
  with e show ?case by simp
qed


section \<open>Digits and the date format\<close>







section \<open>Stepping through a pattern\<close>


lemma group_simps [simp]:
  "match_group i (p, s, (i, u) # g) = u"
  "i \<noteq> j \<Longrightarrow> match_group i (p, s, (j, u) # g) = match_group i (p, s, g)"
  by (simp_all add: match_group_def)








section \<open>The start date pattern\<close>








section \<open>The cleaner's result\<close>






section \<open>Removing the references\<close>











lemma render_Cons [simp]: "render (x # ps) = render_piece x @ render ps"
  by (simp add: render_def)

lemma render_Nil [simp]: "render [] = []"
  by (simp add: render_def)

lemma render_append [simp]: "render (ps @ qs) = render ps @ render qs"
  by (simp add: render_def)














section \<open>Splitting at dots\<close>

lemma split_on_nonempty [simp]: "split_on d s \<noteq> []"
  by (induction s) (auto split: list.splits)






section \<open>The version pattern of the Opera listing\<close>





















end
